theory Spec2Isabelle
  imports Main
begin

section \<open>The relational store\<close>

text \<open>
  The tables of the SQLite schema that the payment routes read or write, one record per
  row and one list per table. Only the columns the three handlers touch are kept (the
  timestamps, the row ids of \<open>order_items\<close> and \<open>payments\<close>, the currency and the
  descriptive columns of pets and products are left out). Amounts are exact integers:
  the rounding of JavaScript numbers is outside the model. A \<open>SELECT ... WHERE id = ?\<close>
  read with \<open>db.get\<close> is the first matching row, an \<open>UPDATE ... WHERE\<close> rewrites every
  matching row.
\<close>

record pet_row =
  pet_id :: nat
  pet_name :: string
  pet_price :: int
  pet_is_available :: bool

record product_row =
  product_id :: nat
  product_name :: string
  product_price :: int
  stock_quantity :: int
  product_is_available :: bool

record order_row =
  orders_id :: nat
  orders_user_id :: nat
  orders_order_number :: string
  orders_total_amount :: int
  orders_status :: string
  orders_payment_status :: string
  orders_shipping_address :: string
  orders_billing_address :: string
  orders_notes :: "string option"

record order_item_row =
  oi_order_id :: nat
  oi_item_type :: string
  oi_item_id :: nat
  oi_quantity :: int
  oi_price :: int

record payment_row =
  pay_order_id :: nat
  pay_stripe_payment_intent_id :: string
  pay_amount :: int
  pay_status :: string
  pay_payment_method :: "string option"
  pay_transaction_id :: "string option"

record store =
  pets :: "pet_row list"
  shop_products :: "product_row list"
  orders :: "order_row list"
  order_items :: "order_item_row list"
  payments :: "payment_row list"

section \<open>The payment gateway\<close>

text \<open>
  The Stripe client is a library outside the repository: its three calls are parameters
  of the handlers. \<open>None\<close> stands for a call that throws (a rejected promise for the
  two intent calls, a failed signature check for \<open>constructEvent\<close>).
\<close>

record payment_intent =
  pi_id :: string
  pi_client_secret :: string
  pi_status :: string
  pi_payment_method :: "string option"

record intent_params =
  ip_amount :: int
  ip_currency :: string
  ip_orderId :: nat
  ip_orderNumber :: string
  ip_userId :: nat

record stripe_event =
  ev_type :: string
  ev_object :: payment_intent

record stripe =
  paymentIntents_create :: "intent_params \<Rightarrow> payment_intent option"
  paymentIntents_retrieve :: "string \<Rightarrow> payment_intent option"
  webhooks_constructEvent :: "string \<Rightarrow> string \<Rightarrow> string \<Rightarrow> stripe_event option"

section \<open>Requests and responses\<close>

text \<open>
  A cart line as the client posts it. The handler destructures \<open>type\<close>, \<open>id\<close> and
  \<open>quantity\<close> (default 1) and nothing else; \<open>ci_price\<close> stands for a price field the
  client may add to the JSON object.
\<close>

record cart_item =
  ci_type :: string
  ci_id :: nat
  ci_quantity :: "int option"
  ci_price :: "int option"

record create_request =
  cr_items :: "cart_item list"
  cr_shippingAddress :: string
  cr_billingAddress :: "string option"
  cr_notes :: "string option"

record confirm_request =
  cf_paymentIntentId :: string
  cf_orderId :: nat

text \<open>
  Every JSON response the three handlers can send, with its HTTP status. The three
  responses of database failures the store below cannot produce (\<open>DatabaseError\<close>,
  \<open>ErrorProcessingOrderItems\<close>, \<open>ErrorUpdatingOrderStatus\<close>) are listed and never sent.
\<close>

datatype response =
    ValidationFailed
  | DatabaseError
  | PetNotFound nat
  | PetNotAvailable string
  | ProductNotFound nat
  | ProductNotAvailable string
  | NoValidItems
  | ErrorCreatingOrder
  | ErrorProcessingOrderItems
  | ErrorCreatingPaymentIntent
  | IntentCreated string nat string int
  | ServerError
  | PaymentNotCompleted
  | OrderNotFound
  | OrderAlreadyProcessed
  | ErrorUpdatingOrderStatus
  | PaymentConfirmed
  | WebhookError
  | WebhookReceived

fun status_code :: "response \<Rightarrow> nat" where
  "status_code ValidationFailed = 400"
| "status_code DatabaseError = 500"
| "status_code (PetNotFound i) = 400"
| "status_code (PetNotAvailable n) = 400"
| "status_code (ProductNotFound i) = 400"
| "status_code (ProductNotAvailable n) = 400"
| "status_code NoValidItems = 400"
| "status_code ErrorCreatingOrder = 500"
| "status_code ErrorProcessingOrderItems = 500"
| "status_code ErrorCreatingPaymentIntent = 500"
| "status_code (IntentCreated secret oid onum amt) = 200"
| "status_code ServerError = 500"
| "status_code PaymentNotCompleted = 400"
| "status_code OrderNotFound = 404"
| "status_code OrderAlreadyProcessed = 400"
| "status_code ErrorUpdatingOrderStatus = 500"
| "status_code PaymentConfirmed = 200"
| "status_code WebhookError = 400"
| "status_code WebhookReceived = 200"

text \<open>The four responses the specification calls \<open>ItemUnavailable\<close>.\<close>

fun item_unavailable :: "response \<Rightarrow> bool" where
  "item_unavailable (PetNotFound i) = True"
| "item_unavailable (PetNotAvailable n) = True"
| "item_unavailable (ProductNotFound i) = True"
| "item_unavailable (ProductNotAvailable n) = True"
| "item_unavailable r = False"

section \<open>Validation chain\<close>

text \<open>
  The express-validator chains of the two private routes. \<open>trim\<close> strips white space
  at both ends (the ASCII white space characters: strings are byte lists here);
  \<open>isLength\<close> and \<open>notEmpty\<close> look at the trimmed string.
\<close>

definition is_space :: "char \<Rightarrow> bool" where
  "is_space c = (c = CHR '' '' \<or> c = CHR 0x09 \<or> c = CHR 0x0A \<or> c = CHR 0x0B
     \<or> c = CHR 0x0C \<or> c = CHR 0x0D)"

definition trim :: "string \<Rightarrow> string" where
  "trim s = rev (dropWhile is_space (rev (dropWhile is_space s)))"

definition valid_item :: "cart_item \<Rightarrow> bool" where
  "valid_item item = ((ci_type item = ''pet'' \<or> ci_type item = ''product'')
     \<and> 1 \<le> ci_id item
     \<and> (case ci_quantity item of None \<Rightarrow> True | Some q \<Rightarrow> 1 \<le> q))"

definition validate_create :: "create_request \<Rightarrow> bool" where
  "validate_create req = (1 \<le> length (cr_items req)
     \<and> list_all valid_item (cr_items req)
     \<and> 10 \<le> length (trim (cr_shippingAddress req)))"

definition validate_confirm :: "confirm_request \<Rightarrow> bool" where
  "validate_confirm req = (trim (cf_paymentIntentId req) \<noteq> [] \<and> 1 \<le> cf_orderId req)"

section \<open>SQL statements\<close>

definition select_pet :: "nat \<Rightarrow> store \<Rightarrow> pet_row option" where
  "select_pet i db = find (\<lambda>p. pet_id p = i) (pets db)"

definition select_product :: "nat \<Rightarrow> store \<Rightarrow> product_row option" where
  "select_product i db = find (\<lambda>p. product_id p = i) (shop_products db)"

definition select_order :: "nat \<Rightarrow> nat \<Rightarrow> store \<Rightarrow> order_row option" where
  "select_order oid uid db =
     find (\<lambda>r. orders_id r = oid \<and> orders_user_id r = uid) (orders db)"

definition select_order_items :: "nat \<Rightarrow> store \<Rightarrow> order_item_row list" where
  "select_order_items oid db = filter (\<lambda>i. oi_order_id i = oid) (order_items db)"

text \<open>
  \<open>this.lastID\<close> of the insert into \<open>orders\<close>: orders are never deleted, so the
  AUTOINCREMENT key is one more than the largest id in the table.
\<close>

definition lastID :: "store \<Rightarrow> nat" where
  "lastID db = Suc (foldr max (map orders_id (orders db)) 0)"

text \<open>The insert fails on the UNIQUE constraint of \<open>order_number\<close>.\<close>

definition insert_order ::
  "nat \<Rightarrow> string \<Rightarrow> int \<Rightarrow> string \<Rightarrow> string \<Rightarrow> string option \<Rightarrow> store \<Rightarrow> (nat \<times> store) option"
where
  "insert_order uid onum amt ship bill notes db =
     (if onum \<in> set (map orders_order_number (orders db)) then None
      else Some (lastID db,
        db\<lparr>orders := orders db @
          [\<lparr>orders_id = lastID db, orders_user_id = uid, orders_order_number = onum,
            orders_total_amount = amt, orders_status = ''pending'',
            orders_payment_status = ''pending'', orders_shipping_address = ship,
            orders_billing_address = bill, orders_notes = notes\<rparr>]\<rparr>))"

definition insert_order_item :: "order_item_row \<Rightarrow> store \<Rightarrow> store" where
  "insert_order_item row db = db\<lparr>order_items := order_items db @ [row]\<rparr>"

definition insert_payment :: "nat \<Rightarrow> string \<Rightarrow> int \<Rightarrow> store \<Rightarrow> store" where
  "insert_payment oid intent amount db =
     db\<lparr>payments := payments db @
       [\<lparr>pay_order_id = oid, pay_stripe_payment_intent_id = intent, pay_amount = amount,
         pay_status = ''pending'', pay_payment_method = None, pay_transaction_id = None\<rparr>]\<rparr>"

definition update_order_status :: "nat \<Rightarrow> store \<Rightarrow> store" where
  "update_order_status oid db =
     db\<lparr>orders := map (\<lambda>r. if orders_id r = oid
         then r\<lparr>orders_status := ''confirmed'', orders_payment_status := ''paid''\<rparr> else r)
       (orders db)\<rparr>"

definition update_payment_record ::
  "string option \<Rightarrow> string \<Rightarrow> nat \<Rightarrow> string \<Rightarrow> store \<Rightarrow> store"
where
  "update_payment_record method txn oid intent db =
     db\<lparr>payments := map (\<lambda>p.
         if pay_order_id p = oid \<and> pay_stripe_payment_intent_id p = intent
         then p\<lparr>pay_status := ''completed'', pay_payment_method := method,
                pay_transaction_id := Some txn\<rparr>
         else p)
       (payments db)\<rparr>"

definition update_payment_status :: "string \<Rightarrow> string \<Rightarrow> store \<Rightarrow> store" where
  "update_payment_status st intent db =
     db\<lparr>payments := map (\<lambda>p.
         if pay_stripe_payment_intent_id p = intent then p\<lparr>pay_status := st\<rparr> else p)
       (payments db)\<rparr>"

definition decrement_stock :: "int \<Rightarrow> nat \<Rightarrow> store \<Rightarrow> store" where
  "decrement_stock q i db =
     db\<lparr>shop_products := map (\<lambda>p.
         if product_id p = i then p\<lparr>stock_quantity := stock_quantity p - q\<rparr> else p)
       (shop_products db)\<rparr>"

definition mark_pet_unavailable :: "nat \<Rightarrow> store \<Rightarrow> store" where
  "mark_pet_unavailable i db =
     db\<lparr>pets := map (\<lambda>p. if pet_id p = i then p\<lparr>pet_is_available := False\<rparr> else p)
       (pets db)\<rparr>"

text \<open>
  No handler opens a transaction, so every write statement commits on its own, and the
  statements of a request are taken to commit in the order the handler issued them.
  \<open>commit_all ws db\<close> runs the statements \<open>ws\<close> in that order and lists the database
  after each commit; \<open>db_after db tr\<close> is the database once a handler whose commits are
  \<open>tr\<close> is done. Reads and updates of the lists above cannot fail, so the handlers'
  \<open>if (err)\<close> branches are reached for the insert into \<open>orders\<close> only.
\<close>

fun commit_all :: "(store \<Rightarrow> store) list \<Rightarrow> store \<Rightarrow> store list" where
  "commit_all [] db = []"
| "commit_all (w # ws) db = w db # commit_all ws (w db)"

definition db_after :: "store \<Rightarrow> store list \<Rightarrow> store" where
  "db_after db tr = last (db # tr)"

section \<open>POST /api/payment/create-intent\<close>

text \<open>
  The handler's local state while the catalogue look-ups come back: the running
  \<open>totalAmount\<close>, the \<open>orderItems\<close> pushed so far, the response already written to the
  socket (\<open>res\<close>, none yet at the start) and whether the process is gone. Writing a second
  response throws \<open>ERR_HTTP_HEADERS_SENT\<close>; the throw is never handled (in a database
  callback it is an uncaught exception, in the handler's own \<open>catch\<close> blocks the 500
  they send throws again), and the server's process-level handlers answer both with
  \<open>process.exit(1)\<close>.
\<close>

record resolved_item =
  ri_type :: string
  ri_id :: nat
  ri_name :: string
  ri_price :: int
  ri_quantity :: int

record request_state =
  totalAmount :: int
  orderItems :: "resolved_item list"
  res :: "response option"
  exited :: bool

text \<open>\<open>let totalAmount = 0; const orderItems = [];\<close> and nothing sent yet.\<close>

definition fresh_state :: request_state where
  "fresh_state = \<lparr>totalAmount = 0, orderItems = [], res = None, exited = False\<rparr>"

definition res_json :: "response \<Rightarrow> request_state \<Rightarrow> request_state" where
  "res_json r st = (case res st of None \<Rightarrow> st\<lparr>res := Some r\<rparr> | Some _ \<Rightarrow> st\<lparr>exited := True\<rparr>)"

definition quantity_of :: "cart_item \<Rightarrow> int" where
  "quantity_of item = (case ci_quantity item of None \<Rightarrow> 1 | Some q \<Rightarrow> q)"

text \<open>
  The callback of the look-up of one cart line. Its \<open>return res.status(400)...\<close> leaves
  the callback only: the loop over the cart has already issued every look-up, and the
  handler goes on after its 100 ms wait.
\<close>

definition pet_callback :: "store \<Rightarrow> cart_item \<Rightarrow> request_state \<Rightarrow> request_state" where
  "pet_callback db item st =
     (case select_pet (ci_id item) db of
        None \<Rightarrow> res_json (PetNotFound (ci_id item)) st
      | Some pet \<Rightarrow>
          if \<not> pet_is_available pet then res_json (PetNotAvailable (pet_name pet)) st
          else st\<lparr>totalAmount := totalAmount st + pet_price pet * quantity_of item,
                  orderItems := orderItems st @
                    [\<lparr>ri_type = ''pet'', ri_id = pet_id pet, ri_name = pet_name pet,
                      ri_price = pet_price pet, ri_quantity = quantity_of item\<rparr>]\<rparr>)"

definition product_callback :: "store \<Rightarrow> cart_item \<Rightarrow> request_state \<Rightarrow> request_state" where
  "product_callback db item st =
     (case select_product (ci_id item) db of
        None \<Rightarrow> res_json (ProductNotFound (ci_id item)) st
      | Some product \<Rightarrow>
          if \<not> product_is_available product \<or> stock_quantity product < quantity_of item
          then res_json (ProductNotAvailable (product_name product)) st
          else st\<lparr>totalAmount := totalAmount st + product_price product * quantity_of item,
                  orderItems := orderItems st @
                    [\<lparr>ri_type = ''product'', ri_id = product_id product,
                      ri_name = product_name product, ri_price = product_price product,
                      ri_quantity = quantity_of item\<rparr>]\<rparr>)"

definition resolve_item :: "store \<Rightarrow> cart_item \<Rightarrow> request_state \<Rightarrow> request_state" where
  "resolve_item db item st =
     (if exited st then st
      else if ci_type item = ''pet'' then pet_callback db item st
      else if ci_type item = ''product'' then product_callback db item st
      else st)"

text \<open>
  The look-ups are answered in the order the loop issued them, all of them within the
  handler's 100 ms wait; once the process has exited no further callback runs.
\<close>

fun resolve_items :: "store \<Rightarrow> cart_item list \<Rightarrow> request_state \<Rightarrow> request_state" where
  "resolve_items db [] st = st"
| "resolve_items db (item # items) st = resolve_items db items (resolve_item db item st)"

text \<open>
  JavaScript's \<open>a || b\<close> for an optional string \<open>a\<close>: \<open>undefined\<close> and the empty
  string are falsy.
\<close>

definition or_else :: "string option \<Rightarrow> string \<Rightarrow> string" where
  "or_else a b = (case a of None \<Rightarrow> b | Some x \<Rightarrow> if x = [] then b else x)"

definition order_item_of :: "nat \<Rightarrow> resolved_item \<Rightarrow> order_item_row" where
  "order_item_of oid item =
     \<lparr>oi_order_id = oid, oi_item_type = ri_type item, oi_item_id = ri_id item,
      oi_quantity = ri_quantity item, oi_price = ri_price item\<rparr>"

text \<open>
  What a request leaves behind: the response the client got, the database after each
  statement the handler committed, and whether the process exited. A statement handed to
  the database before the exit counts as committed.
\<close>

record outcome =
  out_response :: "response option"
  out_commits :: "store list"
  out_exited :: bool

definition finish :: "store list \<Rightarrow> request_state \<Rightarrow> outcome" where
  "finish tr st = \<lparr>out_response = res st, out_commits = tr, out_exited = exited st\<rparr>"

text \<open>
  \<open>userId\<close> is the caller the \<open>protect\<close> middleware authenticated; \<open>orderNumber\<close> is the
  string built from \<open>Date.now()\<close> and a fresh UUID. The validators' \<open>trim()\<close> also
  rewrites the two addresses in the request body.
\<close>

definition create_order_and_intent ::
  "stripe \<Rightarrow> nat \<Rightarrow> string \<Rightarrow> create_request \<Rightarrow> store \<Rightarrow> outcome"
where
  "create_order_and_intent gw userId orderNumber req db =
     (if \<not> validate_create req then finish [] (res_json ValidationFailed fresh_state)
      else
        let shippingAddress = trim (cr_shippingAddress req);
            billingAddress = map_option trim (cr_billingAddress req);
            st = resolve_items db (cr_items req) fresh_state
        in
        if exited st then finish [] st
        else if totalAmount st = 0 then finish [] (res_json NoValidItems st)
        else
          case insert_order userId orderNumber (totalAmount st) shippingAddress
                 (or_else billingAddress shippingAddress) (cr_notes req) db of
            None \<Rightarrow> finish [] (res_json ErrorCreatingOrder st)
          | Some (orderId, db1) \<Rightarrow>
              let inserted = commit_all
                    (map (\<lambda>item. insert_order_item (order_item_of orderId item))
                       (orderItems st)) db1
              in
              (case paymentIntents_create gw
                      \<lparr>ip_amount = totalAmount st * 100, ip_currency = ''inr'',
                       ip_orderId = orderId, ip_orderNumber = orderNumber,
                       ip_userId = userId\<rparr> of
                 None \<Rightarrow> finish (db1 # inserted) (res_json ErrorCreatingPaymentIntent st)
               | Some paymentIntent \<Rightarrow>
                   finish (db1 # inserted @
                       [insert_payment orderId (pi_id paymentIntent) (totalAmount st)
                          (db_after db1 inserted)])
                     (res_json (IntentCreated (pi_client_secret paymentIntent) orderId
                                  orderNumber (totalAmount st)) st)))"

section \<open>POST /api/payment/confirm\<close>

text \<open>The statement an order line triggers once its order is confirmed.\<close>

definition item_statements :: "order_item_row \<Rightarrow> (store \<Rightarrow> store) list" where
  "item_statements item =
     (if oi_item_type item = ''product''
      then [decrement_stock (oi_quantity item) (oi_item_id item)]
      else if oi_item_type item = ''pet'' then [mark_pet_unavailable (oi_item_id item)]
      else [])"

text \<open>
  The success response is sent as soon as the order row is updated: the payment-record
  update and the query for the order's lines are issued just before it, the stock and
  availability updates from that query's callback.
\<close>

definition confirm_payment ::
  "stripe \<Rightarrow> nat \<Rightarrow> confirm_request \<Rightarrow> store \<Rightarrow> response \<times> store list"
where
  "confirm_payment gw userId req db =
     (if \<not> validate_confirm req then (ValidationFailed, [])
      else
        let paymentIntentId = trim (cf_paymentIntentId req); orderId = cf_orderId req in
        case paymentIntents_retrieve gw paymentIntentId of
          None \<Rightarrow> (ServerError, [])
        | Some paymentIntent \<Rightarrow>
            if pi_status paymentIntent \<noteq> ''succeeded'' then (PaymentNotCompleted, [])
            else
              (case select_order orderId userId db of
                 None \<Rightarrow> (OrderNotFound, [])
               | Some order \<Rightarrow>
                   if orders_status order \<noteq> ''pending'' then (OrderAlreadyProcessed, [])
                   else
                     let db1 = update_order_status orderId db;
                         db2 = update_payment_record (pi_payment_method paymentIntent)
                                 (pi_id paymentIntent) orderId paymentIntentId db1
                     in (PaymentConfirmed,
                         db1 # db2 # commit_all
                           (concat (map item_statements (select_order_items orderId db2)))
                           db2)))"

section \<open>POST /api/payment/webhook\<close>

definition handle_gateway_webhook ::
  "stripe \<Rightarrow> string \<Rightarrow> string \<Rightarrow> string \<Rightarrow> store \<Rightarrow> response \<times> store list"
where
  "handle_gateway_webhook gw secret body sig db =
     (case webhooks_constructEvent gw body sig secret of
        None \<Rightarrow> (WebhookError, [])
      | Some event \<Rightarrow>
          if ev_type event = ''payment_intent.succeeded''
          then (WebhookReceived,
                [update_payment_status ''completed'' (pi_id (ev_object event)) db])
          else if ev_type event = ''payment_intent.payment_failed''
          then (WebhookReceived,
                [update_payment_status ''failed'' (pi_id (ev_object event)) db])
          else (WebhookReceived, []))"

section \<open>Notions used in the statements\<close>





text \<open>
  The side effects of confirming an order with the lines \<open>items\<close>, each applied once:
  every product loses the quantities bought of it, every pet bought becomes unavailable.
\<close>

definition purchased :: "order_item_row list \<Rightarrow> nat \<Rightarrow> int" where
  "purchased items i =
     sum_list (map oi_quantity
       (filter (\<lambda>it. oi_item_type it = ''product'' \<and> oi_item_id it = i) items))"

definition adopted :: "order_item_row list \<Rightarrow> nat \<Rightarrow> bool" where
  "adopted items i = list_ex (\<lambda>it. oi_item_type it = ''pet'' \<and> oi_item_id it = i) items"

definition side_effects :: "order_item_row list \<Rightarrow> store \<Rightarrow> store" where
  "side_effects items db =
     db\<lparr>shop_products :=
          map (\<lambda>p. p\<lparr>stock_quantity := stock_quantity p - purchased items (product_id p)\<rparr>)
            (shop_products db),
        pets :=
          map (\<lambda>p. if adopted items (pet_id p) then p\<lparr>pet_is_available := False\<rparr> else p)
            (pets db)\<rparr>"

text \<open>The order \<open>oid\<close> exists and each of its rows is confirmed and paid.\<close>

definition order_confirmed :: "nat \<Rightarrow> store \<Rightarrow> bool" where
  "order_confirmed oid db =
     (filter (\<lambda>r. orders_id r = oid) (orders db) \<noteq> []
      \<and> list_all (\<lambda>r. orders_status r = ''confirmed'' \<and> orders_payment_status r = ''paid'')
          (filter (\<lambda>r. orders_id r = oid) (orders db)))"


section \<open>Example data\<close>

text \<open>
  A shop with two pets (one already sold) and two products, the second with one unit
  left; a gateway that knows three intents; and three carts.
\<close>

definition shop :: store where
  "shop =
     \<lparr>pets =
        [\<lparr>pet_id = 1, pet_name = ''Birchy'', pet_price = 25000, pet_is_available = True\<rparr>,
         \<lparr>pet_id = 2, pet_name = ''Charlie'', pet_price = 35000, pet_is_available = False\<rparr>],
      shop_products =
        [\<lparr>product_id = 1, product_name = ''Chewable Dog Toy'', product_price = 599,
          stock_quantity = 50, product_is_available = True\<rparr>,
         \<lparr>product_id = 2, product_name = ''Premium Cat Food'', product_price = 1299,
          stock_quantity = 1, product_is_available = True\<rparr>],
      orders = [], order_items = [], payments = []\<rparr>"

definition intent :: "string \<Rightarrow> string \<Rightarrow> payment_intent" where
  "intent i st =
     \<lparr>pi_id = i, pi_client_secret = i @ ''_secret'', pi_status = st,
      pi_payment_method = (if st = ''succeeded'' then Some ''pm_card'' else None)\<rparr>"

definition gateway :: stripe where
  "gateway =
     \<lparr>paymentIntents_create = (\<lambda>p. Some (intent ''pi_1'' ''requires_payment_method'')),
      paymentIntents_retrieve =
        (\<lambda>i. if i = ''pi_1'' then Some (intent ''pi_1'' ''succeeded'')
             else if i = ''pi_2'' then Some (intent ''pi_2'' ''succeeded'')
             else if i = ''pi_3'' then Some (intent ''pi_3'' ''processing'')
             else None),
      webhooks_constructEvent =
        (\<lambda>body sig secret.
           if sig = ''signed'' \<and> secret = ''whsec''
           then Some \<lparr>ev_type = ''payment_intent.succeeded'',
                      ev_object = intent ''pi_1'' ''succeeded''\<rparr>
           else None)\<rparr>"

definition cart_toys :: create_request where
  "cart_toys =
     \<lparr>cr_items = [\<lparr>ci_type = ''product'', ci_id = 1, ci_quantity = Some 2, ci_price = None\<rparr>],
      cr_shippingAddress = ''12 Park Street'', cr_billingAddress = None, cr_notes = None\<rparr>"

definition cart_mixed :: create_request where
  "cart_mixed =
     \<lparr>cr_items = [\<lparr>ci_type = ''product'', ci_id = 1, ci_quantity = Some 2, ci_price = None\<rparr>,
                 \<lparr>ci_type = ''pet'', ci_id = 9, ci_quantity = None, ci_price = None\<rparr>],
      cr_shippingAddress = ''12 Park Street'', cr_billingAddress = None, cr_notes = None\<rparr>"

definition cart_last_unit_twice :: create_request where
  "cart_last_unit_twice =
     \<lparr>cr_items = [\<lparr>ci_type = ''product'', ci_id = 2, ci_quantity = Some 1, ci_price = None\<rparr>,
                 \<lparr>ci_type = ''product'', ci_id = 2, ci_quantity = None, ci_price = None\<rparr>],
      cr_shippingAddress = ''12 Park Street'', cr_billingAddress = None, cr_notes = None\<rparr>"

text \<open>The shop once user 5 has checked out \<open>cart_toys\<close> as order 1, not yet confirmed.\<close>

definition toys_ordered :: store where
  "toys_ordered =
     shop\<lparr>orders :=
            [\<lparr>orders_id = 1, orders_user_id = 5, orders_order_number = ''ORD-1'',
              orders_total_amount = 1198, orders_status = ''pending'',
              orders_payment_status = ''pending'', orders_shipping_address = ''12 Park Street'',
              orders_billing_address = ''12 Park Street'', orders_notes = None\<rparr>],
          order_items :=
            [\<lparr>oi_order_id = 1, oi_item_type = ''product'', oi_item_id = 1, oi_quantity = 2,
              oi_price = 599\<rparr>],
          payments :=
            [\<lparr>pay_order_id = 1, pay_stripe_payment_intent_id = ''pi_1'', pay_amount = 1198,
              pay_status = ''pending'', pay_payment_method = None,
              pay_transaction_id = None\<rparr>]\<rparr>"

definition confirm_toys :: confirm_request where
  "confirm_toys = \<lparr>cf_paymentIntentId = ''pi_1'', cf_orderId = 1\<rparr>"

section \<open>Commits and side effects\<close>

lemma db_after_Nil [simp]: "db_after db [] = db"
  by (simp add: db_after_def)

lemma db_after_Cons [simp]: "db_after db (x # xs) = db_after x xs"
  by (simp add: db_after_def)

lemma db_after_snoc [simp]: "db_after db (xs @ [x]) = x"
  by (simp add: db_after_def)

lemma db_after_append: "db_after db (xs @ ys) = db_after (db_after db xs) ys"
  by (induction xs arbitrary: db) simp_all

lemma commit_all_append:
  "commit_all (us @ ws) db = commit_all us db @ commit_all ws (db_after db (commit_all us db))"
  by (induction us arbitrary: db) simp_all

lemma side_effects_Nil: "side_effects [] db = db"
  by (simp add: side_effects_def purchased_def adopted_def)

lemma side_effects_Cons:
  "side_effects items (db_after db (commit_all (item_statements item) db)) =
     side_effects (item # items) db"
  by (auto simp: side_effects_def item_statements_def decrement_stock_def
      mark_pet_unavailable_def purchased_def adopted_def)

lemma commit_side_effects:
  "db_after db (commit_all (concat (map item_statements items)) db) = side_effects items db"
proof (induction items arbitrary: db)
  case Nil
  show ?case by (simp add: side_effects_Nil)
next
  case (Cons item items)
  show ?case
    by (simp add: commit_all_append db_after_append Cons.IH side_effects_Cons)
qed

lemma side_effects_frame:
  "orders (side_effects items db) = orders db"
  "order_items (side_effects items db) = order_items db"
  "payments (side_effects items db) = payments db"
  by (simp_all add: side_effects_def)

lemma item_statements_orders:
  "list_all (\<lambda>t. orders t = orders db) (commit_all (item_statements item) db)"
  by (simp add: item_statements_def decrement_stock_def mark_pet_unavailable_def)

lemma commit_items_orders:
  "list_all (\<lambda>t. orders t = orders db)
     (commit_all (concat (map item_statements items)) db)"
proof (induction items arbitrary: db)
  case Nil
  show ?case by simp
next
  case (Cons item items)
  have same: "orders (db_after db (commit_all (item_statements item) db)) = orders db"
    by (simp add: item_statements_def decrement_stock_def mark_pet_unavailable_def)
  show ?case
    using Cons.IH [of "db_after db (commit_all (item_statements item) db)"]
    by (simp add: commit_all_append item_statements_orders same)
qed

section \<open>Confirmation\<close>

lemma find_map_inv:
  assumes "\<And>x. P (f x) = P x"
  shows "find P (map f xs) = map_option f (find P xs)"
  using assms by (induction xs) simp_all

lemma select_order_confirmed:
  "select_order oid uid (update_order_status oid db) =
     map_option (\<lambda>r. r\<lparr>orders_status := ''confirmed'', orders_payment_status := ''paid''\<rparr>)
       (select_order oid uid db)"
proof -
  let ?f = "\<lambda>r. if orders_id r = oid
      then r\<lparr>orders_status := ''confirmed'', orders_payment_status := ''paid''\<rparr> else r"
  let ?P = "\<lambda>r. orders_id r = oid \<and> orders_user_id r = uid"
  have "find ?P (map ?f (orders db)) = map_option ?f (find ?P (orders db))"
    by (rule find_map_inv) simp
  moreover have "map_option ?f (find ?P (orders db)) =
      map_option (\<lambda>r. r\<lparr>orders_status := ''confirmed'', orders_payment_status := ''paid''\<rparr>)
        (find ?P (orders db))"
    by (cases "find ?P (orders db)") (auto dest: find_Some_iff [THEN iffD1])
  ultimately show ?thesis
    by (simp add: select_order_def update_order_status_def)
qed

lemma confirm_payment_success:
  assumes "confirm_payment gw userId req db = (PaymentConfirmed, tr)"
  shows "\<exists>paymentIntent order.
           validate_confirm req
         \<and> paymentIntents_retrieve gw (trim (cf_paymentIntentId req)) = Some paymentIntent
         \<and> pi_status paymentIntent = ''succeeded''
         \<and> select_order (cf_orderId req) userId db = Some order
         \<and> orders_status order = ''pending''
         \<and> tr = update_order_status (cf_orderId req) db
              # update_payment_record (pi_payment_method paymentIntent) (pi_id paymentIntent)
                  (cf_orderId req) (trim (cf_paymentIntentId req))
                  (update_order_status (cf_orderId req) db)
              # commit_all (concat (map item_statements
                    (select_order_items (cf_orderId req) db)))
                  (update_payment_record (pi_payment_method paymentIntent) (pi_id paymentIntent)
                    (cf_orderId req) (trim (cf_paymentIntentId req))
                    (update_order_status (cf_orderId req) db))"
  using assms
  by (auto simp: confirm_payment_def Let_def select_order_items_def update_payment_record_def
      update_order_status_def split: if_splits option.splits)

lemma db_after_confirm:
  assumes "confirm_payment gw userId req db = (PaymentConfirmed, tr)"
  shows "\<exists>paymentIntent.
           paymentIntents_retrieve gw (trim (cf_paymentIntentId req)) = Some paymentIntent
         \<and> db_after db tr =
             side_effects (select_order_items (cf_orderId req) db)
               (update_payment_record (pi_payment_method paymentIntent) (pi_id paymentIntent)
                  (cf_orderId req) (trim (cf_paymentIntentId req))
                  (update_order_status (cf_orderId req) db))"
  using confirm_payment_success [OF assms]
  by (auto simp: commit_side_effects)

lemma confirmed_stock:
  assumes "confirm_payment gw userId req db = (PaymentConfirmed, tr)"
  shows "shop_products (db_after db tr) =
           map (\<lambda>p. p\<lparr>stock_quantity := stock_quantity p
                  - purchased (select_order_items (cf_orderId req) db) (product_id p)\<rparr>)
             (shop_products db)"
proof -
  from db_after_confirm [OF assms] obtain paymentIntent :: payment_intent where
    "db_after db tr =
      side_effects (select_order_items (cf_orderId req) db)
        (update_payment_record (pi_payment_method paymentIntent) (pi_id paymentIntent)
           (cf_orderId req) (trim (cf_paymentIntentId req))
           (update_order_status (cf_orderId req) db))"
    by blast
  then show ?thesis
    by (simp add: side_effects_def update_payment_record_def update_order_status_def)
qed

lemma confirmed_pets:
  assumes "confirm_payment gw userId req db = (PaymentConfirmed, tr)"
  shows "pets (db_after db tr) =
           map (\<lambda>p. if adopted (select_order_items (cf_orderId req) db) (pet_id p)
                  then p\<lparr>pet_is_available := False\<rparr> else p)
             (pets db)"
proof -
  from db_after_confirm [OF assms] obtain paymentIntent :: payment_intent where
    "db_after db tr =
      side_effects (select_order_items (cf_orderId req) db)
        (update_payment_record (pi_payment_method paymentIntent) (pi_id paymentIntent)
           (cf_orderId req) (trim (cf_paymentIntentId req))
           (update_order_status (cf_orderId req) db))"
    by blast
  then show ?thesis
    by (simp add: side_effects_def update_payment_record_def update_order_status_def)
qed

lemma confirmed_orders:
  assumes "confirm_payment gw userId req db = (PaymentConfirmed, tr)"
  shows "list_all (\<lambda>t. orders t = orders (update_order_status (cf_orderId req) db)) tr"
proof -
  from confirm_payment_success [OF assms] obtain paymentIntent :: payment_intent where
    tr: "tr = update_order_status (cf_orderId req) db
          # update_payment_record (pi_payment_method paymentIntent) (pi_id paymentIntent)
              (cf_orderId req) (trim (cf_paymentIntentId req))
              (update_order_status (cf_orderId req) db)
          # commit_all (concat (map item_statements
                (select_order_items (cf_orderId req) db)))
              (update_payment_record (pi_payment_method paymentIntent) (pi_id paymentIntent)
                (cf_orderId req) (trim (cf_paymentIntentId req))
                (update_order_status (cf_orderId req) db))"
    by blast
  have "orders (update_payment_record m x oid pid d) = orders d" for m x oid pid d
    by (simp add: update_payment_record_def)
  then show ?thesis
    using commit_items_orders
      [of "update_payment_record (pi_payment_method paymentIntent) (pi_id paymentIntent)
            (cf_orderId req) (trim (cf_paymentIntentId req))
            (update_order_status (cf_orderId req) db)"
          "select_order_items (cf_orderId req) db"]
    by (simp add: tr)
qed

section \<open>Claims about confirmation\<close>

text \<open>
  Claim C3. Once \<open>confirm_payment\<close> has succeeded for an order, a second call for the
  same order by the same user (with any intent the gateway reports as succeeded, the
  first call's included) is answered "Order already processed" and commits nothing; the
  database after both calls is the one after the first, in which each product has lost
  the purchased quantity once and each purchased pet is unavailable.
\<close>

theorem confirm_payment_twice:
  assumes first: "confirm_payment gw userId req db = (PaymentConfirmed, tr)"
    and valid: "validate_confirm req'"
    and same: "cf_orderId req' = cf_orderId req"
    and paid: "paymentIntents_retrieve gw' (trim (cf_paymentIntentId req')) = Some paymentIntent'"
    and succeeded: "pi_status paymentIntent' = ''succeeded''"
  shows "confirm_payment gw' userId req' (db_after db tr) = (OrderAlreadyProcessed, [])
       \<and> shop_products (db_after db tr) =
           map (\<lambda>p. p\<lparr>stock_quantity := stock_quantity p
                  - purchased (select_order_items (cf_orderId req) db) (product_id p)\<rparr>)
             (shop_products db)
       \<and> pets (db_after db tr) =
           map (\<lambda>p. if adopted (select_order_items (cf_orderId req) db) (pet_id p)
                  then p\<lparr>pet_is_available := False\<rparr> else p)
             (pets db)"
proof -
  from confirm_payment_success [OF first] obtain order where
    found: "select_order (cf_orderId req) userId db = Some order"
    by blast
  have "list_all (\<lambda>t. orders t = orders (update_order_status (cf_orderId req) db)) tr"
    by (rule confirmed_orders [OF first])
  moreover have "tr \<noteq> []"
    using confirm_payment_success [OF first] by blast
  ultimately have "orders (db_after db tr) = orders (update_order_status (cf_orderId req) db)"
    by (simp add: db_after_def list_all_iff)
  then have "select_order (cf_orderId req) userId (db_after db tr) =
      select_order (cf_orderId req) userId (update_order_status (cf_orderId req) db)"
    by (simp add: select_order_def)
  with found have sel: "select_order (cf_orderId req) userId (db_after db tr) =
      Some (order\<lparr>orders_status := ''confirmed'', orders_payment_status := ''paid''\<rparr>)"
    by (simp add: select_order_confirmed)
  have second: "confirm_payment gw' userId req' (db_after db tr) = (OrderAlreadyProcessed, [])"
    using valid same paid succeeded sel by (simp add: confirm_payment_def)
  from second confirmed_stock [OF first] confirmed_pets [OF first] show ?thesis
    by simp
qed

theorem confirm_payment_twice_witness:
  "confirm_payment gateway 5 confirm_toys toys_ordered =
     (PaymentConfirmed, snd (confirm_payment gateway 5 confirm_toys toys_ordered))
   \<and> confirm_payment gateway 5 confirm_toys
       (db_after toys_ordered (snd (confirm_payment gateway 5 confirm_toys toys_ordered))) =
     (OrderAlreadyProcessed, [])
   \<and> map stock_quantity (shop_products
       (db_after toys_ordered (snd (confirm_payment gateway 5 confirm_toys toys_ordered)))) =
     [48, 1]"
proof -
  have first: "confirm_payment gateway 5 confirm_toys toys_ordered =
      (PaymentConfirmed, snd (confirm_payment gateway 5 confirm_toys toys_ordered))"
    by code_simp
  have valid: "validate_confirm confirm_toys"
    by code_simp
  have paid: "paymentIntents_retrieve gateway (trim (cf_paymentIntentId confirm_toys)) =
      Some (intent ''pi_1'' ''succeeded'')"
    by code_simp
  have succeeded: "pi_status (intent ''pi_1'' ''succeeded'') = ''succeeded''"
    by code_simp
  have stock: "map stock_quantity (shop_products
      (db_after toys_ordered (snd (confirm_payment gateway 5 confirm_toys toys_ordered)))) =
      [48, 1]"
    by code_simp
  from confirm_payment_twice [OF first valid refl paid succeeded] first stock
  show ?thesis by simp
qed

text \<open>
  Claim C10. \<open>confirm_payment\<close> never compares the intent with the one recorded for the
  order: for a pending order of the caller and any intent the gateway reports as
  succeeded, the call succeeds and confirms the order; when no payment row of that order
  carries that intent id, the payment-record update matches nothing and the
  \<open>payments\<close> table stays as it was.
\<close>

theorem confirm_payment_any_succeeded_intent:
  assumes valid: "validate_confirm req"
    and paid: "paymentIntents_retrieve gw (trim (cf_paymentIntentId req)) = Some paymentIntent"
    and succeeded: "pi_status paymentIntent = ''succeeded''"
    and found: "select_order (cf_orderId req) userId db = Some order"
    and pending: "orders_status order = ''pending''"
  shows "fst (confirm_payment gw userId req db) = PaymentConfirmed
       \<and> order_confirmed (cf_orderId req)
           (db_after db (snd (confirm_payment gw userId req db)))
       \<and> (\<not> list_ex (\<lambda>p. pay_order_id p = cf_orderId req
                \<and> pay_stripe_payment_intent_id p = trim (cf_paymentIntentId req)) (payments db)
            \<longrightarrow> payments (db_after db (snd (confirm_payment gw userId req db))) = payments db)"
proof -
  let ?oid = "cf_orderId req"
  let ?db2 = "update_payment_record (pi_payment_method paymentIntent) (pi_id paymentIntent)
      ?oid (trim (cf_paymentIntentId req)) (update_order_status ?oid db)"
  have run: "confirm_payment gw userId req db =
      (PaymentConfirmed, update_order_status ?oid db # ?db2 #
         commit_all (concat (map item_statements (select_order_items ?oid ?db2))) ?db2)"
    using assms by (simp add: confirm_payment_def Let_def)
  have items: "select_order_items ?oid ?db2 = select_order_items ?oid db"
    by (simp add: select_order_items_def update_payment_record_def update_order_status_def)
  have after: "db_after db (snd (confirm_payment gw userId req db)) =
      side_effects (select_order_items ?oid db) ?db2"
    by (simp add: run commit_side_effects items)
  from found have "order \<in> set (orders db)" "orders_id order = ?oid"
    by (auto simp: select_order_def find_Some_iff)
  then have "filter (\<lambda>r. orders_id r = ?oid) (orders db) \<noteq> []"
    by (auto simp: filter_empty_conv)
  then have confirmed: "order_confirmed ?oid (side_effects (select_order_items ?oid db) ?db2)"
    by (auto simp: order_confirmed_def side_effects_frame update_payment_record_def
        update_order_status_def filter_map comp_def list_all_iff filter_empty_conv)
  have untouched: "payments (side_effects (select_order_items ?oid db) ?db2) = payments db"
    if "\<not> list_ex (\<lambda>p. pay_order_id p = ?oid
          \<and> pay_stripe_payment_intent_id p = trim (cf_paymentIntentId req)) (payments db)"
  proof -
    have "map (\<lambda>p. if pay_order_id p = ?oid
          \<and> pay_stripe_payment_intent_id p = trim (cf_paymentIntentId req)
        then p\<lparr>pay_status := ''completed'',
               pay_payment_method := pi_payment_method paymentIntent,
               pay_transaction_id := Some (pi_id paymentIntent)\<rparr>
        else p) (payments db) = payments db"
      using that by (intro map_idI) (auto simp: list_ex_iff)
    then show ?thesis
      by (simp add: side_effects_frame update_payment_record_def update_order_status_def)
  qed
  have answer: "fst (confirm_payment gw userId req db) = PaymentConfirmed"
    by (simp add: run)
  show ?thesis
    unfolding after using answer confirmed untouched by blast
qed

theorem confirm_payment_any_succeeded_intent_witness:
  "paymentIntents_retrieve gateway ''pi_2'' = Some (intent ''pi_2'' ''succeeded'')
   \<and> map pay_stripe_payment_intent_id (payments toys_ordered) = [''pi_1'']
   \<and> fst (confirm_payment gateway 5 \<lparr>cf_paymentIntentId = ''pi_2'', cf_orderId = 1\<rparr>
        toys_ordered) = PaymentConfirmed
   \<and> order_confirmed 1 (db_after toys_ordered
        (snd (confirm_payment gateway 5 \<lparr>cf_paymentIntentId = ''pi_2'', cf_orderId = 1\<rparr>
           toys_ordered)))
   \<and> payments (db_after toys_ordered
        (snd (confirm_payment gateway 5 \<lparr>cf_paymentIntentId = ''pi_2'', cf_orderId = 1\<rparr>
           toys_ordered))) = payments toys_ordered"
proof -
  let ?req = "\<lparr>cf_paymentIntentId = ''pi_2'', cf_orderId = 1\<rparr>"
  have valid: "validate_confirm ?req"
    by code_simp
  have paid: "paymentIntents_retrieve gateway (trim (cf_paymentIntentId ?req)) =
      Some (intent ''pi_2'' ''succeeded'')"
    by code_simp
  have succeeded: "pi_status (intent ''pi_2'' ''succeeded'') = ''succeeded''"
    by code_simp
  have found: "select_order (cf_orderId ?req) 5 toys_ordered = Some (hd (orders toys_ordered))"
    by code_simp
  have pending: "orders_status (hd (orders toys_ordered)) = ''pending''"
    by code_simp
  have other: "\<not> list_ex (\<lambda>p. pay_order_id p = cf_orderId ?req
      \<and> pay_stripe_payment_intent_id p = trim (cf_paymentIntentId ?req)) (payments toys_ordered)"
    by code_simp
  have direct: "paymentIntents_retrieve gateway ''pi_2'' = Some (intent ''pi_2'' ''succeeded'')"
    "map pay_stripe_payment_intent_id (payments toys_ordered) = [''pi_1'']"
    by code_simp+
  from confirm_payment_any_succeeded_intent [OF valid paid succeeded found pending] other direct
  show ?thesis by simp
qed

section \<open>Claims about the webhook\<close>

lemma update_payment_status_twice:
  "update_payment_status st i (update_payment_status st i db) = update_payment_status st i db"
  by (simp add: update_payment_status_def comp_def)

text \<open>
  Claim C5. A delivery whose signature \<open>constructEvent\<close> rejects is answered with the
  400 "Webhook Error" response and no statement is issued: the database is unchanged.
\<close>

theorem webhook_invalid_signature:
  assumes "webhooks_constructEvent gw body sig secret = None"
  shows "handle_gateway_webhook gw secret body sig db = (WebhookError, [])
       \<and> db_after db (snd (handle_gateway_webhook gw secret body sig db)) = db"
  using assms by (simp add: handle_gateway_webhook_def)

theorem webhook_invalid_signature_witness:
  "webhooks_constructEvent gateway ''{}'' ''forged'' ''whsec'' = None
   \<and> handle_gateway_webhook gateway ''whsec'' ''{}'' ''forged'' toys_ordered = (WebhookError, [])
   \<and> db_after toys_ordered
        (snd (handle_gateway_webhook gateway ''whsec'' ''{}'' ''forged'' toys_ordered)) =
      toys_ordered"
proof -
  have rejected: "webhooks_constructEvent gateway ''{}'' ''forged'' ''whsec'' = None"
    by (simp add: gateway_def)
  from webhook_invalid_signature [OF rejected] rejected show ?thesis
    by simp
qed

text \<open>
  Claim C7. Delivering the same payment-succeeded event a second time leaves the
  database as the first delivery left it: every payment row with the event's intent id
  has status \<open>completed\<close>, and no other table was written by either delivery.
\<close>

theorem webhook_succeeded_idempotent:
  assumes verified: "webhooks_constructEvent gw body sig secret = Some event"
    and succeeded: "ev_type event = ''payment_intent.succeeded''"
  shows "db_after (db_after db (snd (handle_gateway_webhook gw secret body sig db)))
           (snd (handle_gateway_webhook gw secret body sig
              (db_after db (snd (handle_gateway_webhook gw secret body sig db))))) =
         db_after db (snd (handle_gateway_webhook gw secret body sig db))
       \<and> list_all (\<lambda>p. pay_status p = ''completed'')
           (filter (\<lambda>p. pay_stripe_payment_intent_id p = pi_id (ev_object event))
              (payments (db_after db (snd (handle_gateway_webhook gw secret body sig db)))))
       \<and> shop_products (db_after db (snd (handle_gateway_webhook gw secret body sig db))) =
           shop_products db
       \<and> pets (db_after db (snd (handle_gateway_webhook gw secret body sig db))) = pets db"
proof -
  have once: "db_after db (snd (handle_gateway_webhook gw secret body sig db)) =
      update_payment_status ''completed'' (pi_id (ev_object event)) db" for db
    using assms by (simp add: handle_gateway_webhook_def)
  have completed: "list_all (\<lambda>p. pay_status p = ''completed'')
      (filter (\<lambda>p. pay_stripe_payment_intent_id p = pi_id (ev_object event))
         (payments (update_payment_status ''completed'' (pi_id (ev_object event)) db)))"
    by (auto simp: update_payment_status_def list_all_iff)
  show ?thesis
    unfolding once using completed
    by (simp add: update_payment_status_twice) (simp add: update_payment_status_def)
qed

theorem webhook_succeeded_idempotent_witness:
  "webhooks_constructEvent gateway ''{}'' ''signed'' ''whsec'' =
     Some \<lparr>ev_type = ''payment_intent.succeeded'', ev_object = intent ''pi_1'' ''succeeded''\<rparr>
   \<and> map pay_status (payments toys_ordered) = [''pending'']
   \<and> map pay_status (payments (db_after toys_ordered
        (snd (handle_gateway_webhook gateway ''whsec'' ''{}'' ''signed'' toys_ordered)))) =
      [''completed'']
   \<and> db_after (db_after toys_ordered
          (snd (handle_gateway_webhook gateway ''whsec'' ''{}'' ''signed'' toys_ordered)))
        (snd (handle_gateway_webhook gateway ''whsec'' ''{}'' ''signed''
          (db_after toys_ordered
            (snd (handle_gateway_webhook gateway ''whsec'' ''{}'' ''signed'' toys_ordered))))) =
      db_after toys_ordered
        (snd (handle_gateway_webhook gateway ''whsec'' ''{}'' ''signed'' toys_ordered))"
proof -
  have verified: "webhooks_constructEvent gateway ''{}'' ''signed'' ''whsec'' =
      Some \<lparr>ev_type = ''payment_intent.succeeded'', ev_object = intent ''pi_1'' ''succeeded''\<rparr>"
    by (simp add: gateway_def)
  have before: "map pay_status (payments toys_ordered) = [''pending'']"
    by code_simp
  have after: "map pay_status (payments (db_after toys_ordered
      (snd (handle_gateway_webhook gateway ''whsec'' ''{}'' ''signed'' toys_ordered)))) =
      [''completed'']"
    by code_simp
  from webhook_succeeded_idempotent [OF verified, of toys_ordered] verified before after
  show ?thesis by simp
qed




section \<open>Claims about order creation\<close>












text \<open>The example database \<open>toys_ordered\<close> is what checking out \<open>cart_toys\<close> leaves.\<close>

lemma toys_ordered_reached:
  "db_after shop (out_commits (create_order_and_intent gateway 5 ''ORD-1'' cart_toys shop)) =
     toys_ordered"
  by code_simp

text \<open>
  Claim C2, at a cart the handler can receive: two toys and a pet that does not exist.
  The pet's callback sends the 400 "not found" response, but its \<open>return\<close> only leaves
  the callback. The handler goes on with the line that did resolve: it inserts order 1
  with total 1198 and its order line, asks the gateway for an intent, issues the insert
  of a payment row, and then fails to send a second response, upon which the process
  exits.
\<close>

theorem unavailable_item_still_writes_order:
  "out_response (create_order_and_intent gateway 5 ''ORD-1'' cart_mixed shop) =
     Some (PetNotFound 9)
   \<and> item_unavailable (PetNotFound 9)
   \<and> orders shop = []
   \<and> order_items shop = []
   \<and> map orders_total_amount (orders (db_after shop
        (out_commits (create_order_and_intent gateway 5 ''ORD-1'' cart_mixed shop)))) = [1198]
   \<and> order_items (db_after shop
        (out_commits (create_order_and_intent gateway 5 ''ORD-1'' cart_mixed shop))) =
      [\<lparr>oi_order_id = 1, oi_item_type = ''product'', oi_item_id = 1, oi_quantity = 2,
        oi_price = 599\<rparr>]
   \<and> out_exited (create_order_and_intent gateway 5 ''ORD-1'' cart_mixed shop)"
  by code_simp

section \<open>Claims about stock and atomicity\<close>

text \<open>
  Claim C4, as the handler has it. The stock update issued at confirmation is one
  \<open>UPDATE\<close> statement per product line that subtracts the purchased quantity without
  looking at the stock that is left (the only stock check is the one each cart line gets
  when the order is created). After a successful \<open>confirm_payment\<close> every product's
  stock is its stock before minus the quantities of that product on the order; it is
  non-negative for every product when the stock before covered those quantities.
\<close>

theorem stock_decrement_unchecked:
  assumes "confirm_payment gw userId req db = (PaymentConfirmed, tr)"
  shows "map stock_quantity (shop_products (db_after db tr)) =
           map (\<lambda>p. stock_quantity p
                  - purchased (select_order_items (cf_orderId req) db) (product_id p))
             (shop_products db)
       \<and> (list_all (\<lambda>p. purchased (select_order_items (cf_orderId req) db) (product_id p)
                        \<le> stock_quantity p)
             (shop_products db)
            \<longrightarrow> list_all (\<lambda>p. 0 \<le> stock_quantity p) (shop_products (db_after db tr)))"
  by (simp add: confirmed_stock [OF assms] comp_def list_all_iff)

theorem stock_decrement_unchecked_witness:
  "confirm_payment gateway 5 confirm_toys toys_ordered =
     (PaymentConfirmed, snd (confirm_payment gateway 5 confirm_toys toys_ordered))
   \<and> map stock_quantity (shop_products toys_ordered) = [50, 1]
   \<and> map (\<lambda>p. purchased (select_order_items 1 toys_ordered) (product_id p))
        (shop_products toys_ordered) = [2, 0]
   \<and> map stock_quantity (shop_products (db_after toys_ordered
        (snd (confirm_payment gateway 5 confirm_toys toys_ordered)))) = [48, 1]
   \<and> list_all (\<lambda>p. 0 \<le> stock_quantity p) (shop_products (db_after toys_ordered
        (snd (confirm_payment gateway 5 confirm_toys toys_ordered))))"
proof -
  have first: "confirm_payment gateway 5 confirm_toys toys_ordered =
      (PaymentConfirmed, snd (confirm_payment gateway 5 confirm_toys toys_ordered))"
    by code_simp
  have before: "map stock_quantity (shop_products toys_ordered) = [50, 1]"
    by code_simp
  have bought: "map (\<lambda>p. purchased (select_order_items 1 toys_ordered) (product_id p))
      (shop_products toys_ordered) = [2, 0]"
    by code_simp
  have after: "map (\<lambda>p. stock_quantity p
        - purchased (select_order_items (cf_orderId confirm_toys) toys_ordered) (product_id p))
      (shop_products toys_ordered) = [48, 1]"
    by code_simp
  have covered: "list_all
      (\<lambda>p. purchased (select_order_items (cf_orderId confirm_toys) toys_ordered) (product_id p)
         \<le> stock_quantity p)
      (shop_products toys_ordered)"
    by code_simp
  from stock_decrement_unchecked [OF first] first before bought after covered
  show ?thesis by simp
qed

text \<open>
  The claim as stated fails on a sequence of two requests. The last unit of product 2 is
  put in the cart twice; each line passes the stock check on its own (1 is not below
  1), the order is created, and confirming it runs the update twice: the stock is -1.
\<close>

theorem stock_goes_negative:
  "map stock_quantity (shop_products shop) = [50, 1]
   \<and> out_response (create_order_and_intent gateway 5 ''ORD-2'' cart_last_unit_twice shop) =
      Some (IntentCreated ''pi_1_secret'' 1 ''ORD-2'' 2598)
   \<and> fst (confirm_payment gateway 5 confirm_toys
        (db_after shop
          (out_commits (create_order_and_intent gateway 5 ''ORD-2'' cart_last_unit_twice shop)))) =
      PaymentConfirmed
   \<and> map stock_quantity (shop_products
        (db_after
          (db_after shop
            (out_commits (create_order_and_intent gateway 5 ''ORD-2'' cart_last_unit_twice shop)))
          (snd (confirm_payment gateway 5 confirm_toys
            (db_after shop
              (out_commits
                (create_order_and_intent gateway 5 ''ORD-2'' cart_last_unit_twice shop))))))) =
      [50, - 1]"
  by code_simp





section \<open>Order rows and their lines\<close>










end
